theory Spec2Isabelle
  imports Complex_Main "HOL-Library.Monad_Syntax"
begin

section \<open>JavaScript values used by the authenticator\<close>

text \<open>
  The program is TypeScript running in a browser. Its values are modelled as follows.
  \<^item> A \<open>number\<close> is \<open>NaN\<close> or a rational; the rounding of doubles beyond \<open>2^53\<close> and the
    infinities are not modelled.
  \<^item> A string is a \<open>string\<close>, one \<open>char\<close> for one code unit. The platform's string
    functions (\<open>toUpperCase\<close>, the class \<open>\s\<close>, \<open>trim\<close>, \<open>parseInt\<close>) are written out
    for ASCII text, the range of every character class the source tests for; white space
    and case mappings beyond ASCII are not modelled.
  \<^item> \<open>null\<close> and \<open>undefined\<close> are \<open>None\<close>; a thrown exception is \<open>Inl\<close> of an \<open>error\<close>,
    or \<open>None\<close> where the kind of the exception is never inspected.
  \<^item> Functions of the platform and of third-party libraries whose code is not part of the
    repository (\<open>new URL\<close>, \<open>decodeURIComponent\<close>, \<open>JSON.parse\<close>, \<open>crypto.randomUUID\<close>,
    \<open>Date.now\<close>, the \<open>otpauth\<close> library) are parameters of the functions that call
    them: partial maps where they may throw.
\<close>

datatype number = NaN | Num rat

datatype error = TypeError | URIError | Error string

definition charCode :: "char \<Rightarrow> nat" where
  "charCode c = of_char c"

definition in_range :: "char \<Rightarrow> char \<Rightarrow> char \<Rightarrow> bool" where
  "in_range lo hi c = (charCode lo \<le> charCode c \<and> charCode c \<le> charCode hi)"

text \<open>The class \<open>\s\<close> on ASCII: tab, line feed, vertical tab, form feed, carriage return, space.\<close>

definition isWhiteSpace :: "char \<Rightarrow> bool" where
  "isWhiteSpace c = (c \<in> set [CHR 0x09, CHR 0x0A, CHR 0x0B, CHR 0x0C, CHR 0x0D, CHR '' ''])"

definition toUpperCase_char :: "char \<Rightarrow> char" where
  "toUpperCase_char c =
     (if in_range CHR ''a'' CHR ''z'' c then char_of (charCode c - 32) else c)"

definition toUpperCase :: "string \<Rightarrow> string" where
  "toUpperCase s = map toUpperCase_char s"

text \<open>\<open>s.replace(/\s/g, '')\<close>\<close>

definition replace_ws :: "string \<Rightarrow> string" where
  "replace_ws s = filter (\<lambda>c. \<not> isWhiteSpace c) s"


text \<open>\<open>s.split(sep)\<close> for a separator of one character; the result is never empty.\<close>

fun split :: "char \<Rightarrow> string \<Rightarrow> string list" where
  "split sep [] = [[]]"
| "split sep (c # cs) =
     (if c = sep then [] # split sep cs
      else (case split sep cs of p # ps \<Rightarrow> (c # p) # ps | [] \<Rightarrow> [[c]]))"

text \<open>\<open>parts.join(sep)\<close>\<close>

fun join :: "char \<Rightarrow> string list \<Rightarrow> string" where
  "join sep [] = []"
| "join sep [p] = p"
| "join sep (p # q # ps) = p @ sep # join sep (q # ps)"

text \<open>\<open>a || b\<close> for a string \<open>a\<close> that may be \<open>null\<close> or \<open>undefined\<close>: the empty string is falsy.\<close>

definition or_else :: "string option \<Rightarrow> string \<Rightarrow> string" where
  "or_else a b = (case a of None \<Rightarrow> b | Some v \<Rightarrow> if v = [] then b else v)"

definition is_digit :: "char \<Rightarrow> bool" where
  "is_digit c = in_range CHR ''0'' CHR ''9'' c"

definition digits_value :: "string \<Rightarrow> nat" where
  "digits_value z = foldl (\<lambda>n c. 10 * n + (charCode c - 48)) 0 z"

text \<open>
  \<open>parseInt(s, 10)\<close>: leading white space is skipped, one sign is read, then the longest
  prefix of decimal digits; without a digit the result is \<open>NaN\<close>.
\<close>

definition parseInt :: "string \<Rightarrow> number" where
  "parseInt s =
     (let S = dropWhile isWhiteSpace s;
          sign = (case S of c # cs \<Rightarrow> if c = CHR ''-'' then - 1 else 1 | [] \<Rightarrow> (1::int));
          S' = (case S of c # cs \<Rightarrow> if c = CHR ''+'' \<or> c = CHR ''-'' then cs else S | [] \<Rightarrow> S);
          Z = takeWhile is_digit S'
      in if Z = [] then NaN else Num (of_int (sign * int (digits_value Z))))"

text \<open>The operators \<open>%\<close> and \<open>-\<close> on numbers; \<open>%\<close> truncates towards zero.\<close>

definition trunc :: "rat \<Rightarrow> int" where
  "trunc q = (if 0 \<le> q then \<lfloor>q\<rfloor> else \<lceil>q\<rceil>)"

fun js_rem :: "number \<Rightarrow> number \<Rightarrow> number" where
  "js_rem (Num x) (Num y) = (if y = 0 then NaN else Num (x - y * of_int (trunc (x / y))))"
| "js_rem _ _ = NaN"

fun js_sub :: "number \<Rightarrow> number \<Rightarrow> number" where
  "js_sub (Num x) (Num y) = Num (x - y)"
| "js_sub _ _ = NaN"

section \<open>types/account.ts\<close>

record ParsedOTPAuth =
  issuer :: string
  label :: string
  secret :: string
  algorithm :: string
  digits :: number
  period :: number

text \<open>\<open>Omit<Account, 'id' | 'createdAt'>\<close>, then \<open>Account\<close>; the field \<open>id\<close> is \<open>acc_id\<close>.\<close>

record NewAccount = ParsedOTPAuth +
  backupCodes :: "string list option"

record Account = NewAccount +
  acc_id :: string
  createdAt :: number

text \<open>
  \<open>Partial<Account>\<close>: \<open>None\<close> is a key that is absent. For \<open>backupCodes\<close> the value of a
  key that is present may itself be \<open>undefined\<close>.
\<close>

record PartialAccount =
  upd_id :: "string option"
  upd_issuer :: "string option"
  upd_label :: "string option"
  upd_secret :: "string option"
  upd_algorithm :: "string option"
  upd_digits :: "number option"
  upd_period :: "number option"
  upd_createdAt :: "number option"
  upd_backupCodes :: "string list option option"

section \<open>lib/otpauth-parser.ts\<close>

text \<open>What \<open>new URL(uri)\<close> returns, as far as the parser reads it.\<close>

record URL =
  protocol :: string
  host :: string
  pathname :: string
  searchParams :: "(string \<times> string) list"

text \<open>\<open>params.get(name)\<close> is the first value of that name, \<open>params.has(name)\<close> whether there is one.\<close>

definition params_get :: "(string \<times> string) list \<Rightarrow> string \<Rightarrow> string option" where
  "params_get params name = map_of params name"

definition params_has :: "(string \<times> string) list \<Rightarrow> string \<Rightarrow> bool" where
  "params_has params name = (map_of params name \<noteq> None)"

text \<open>
  The label path, \<open>"issuer:account"\<close> or just \<open>"account"\<close>: the issuer and the label
  that the parser reads from the decoded path.
\<close>

definition label_parts :: "string \<Rightarrow> string \<times> string" where
  "label_parts path =
     (if CHR '':'' \<in> set path
      then (case split CHR '':'' path of
              p # ps \<Rightarrow> (p, join CHR '':'' ps)
            | [] \<Rightarrow> ([], []))
      else ([], path))"

text \<open>The body of the \<open>try\<close> block of \<open>parseOTPAuthURI\<close>.\<close>

definition parseOTPAuthURI_try ::
  "(string \<rightharpoonup> URL) \<Rightarrow> (string \<rightharpoonup> string) \<Rightarrow> string \<Rightarrow> error + ParsedOTPAuth" where
  "parseOTPAuthURI_try newURL decodeURIComponent uri =
     (case newURL uri of
        None \<Rightarrow> Inl TypeError
      | Some url \<Rightarrow>
          if protocol url \<noteq> ''otpauth:'' then Inl (Error ''Invalid protocol'')
          else if host url \<noteq> ''totp'' then Inl (Error ''Only TOTP is supported'')
          else (case decodeURIComponent (drop 1 (pathname url)) of
             None \<Rightarrow> Inl URIError
           | Some path \<Rightarrow>
               let (issuer0, label0) = label_parts path;
                   params = searchParams url
               in (case params_get params ''secret'' of
                     None \<Rightarrow> Inl (Error ''Secret is required'')
                   | Some sec \<Rightarrow>
                       if sec = [] then Inl (Error ''Secret is required'')
                       else
                         let issuer1 =
                               (if params_has params ''issuer''
                                then or_else (params_get params ''issuer'') issuer0
                                else issuer0);
                             alg = or_else (map_option toUpperCase (params_get params ''algorithm''))
                                     ''SHA1'';
                             dig = parseInt (or_else (params_get params ''digits'') ''6'');
                             per = parseInt (or_else (params_get params ''period'') ''30'')
                         in Inr \<lparr>issuer = or_else (Some issuer1) ''Unknown'',
                                 label = label0,
                                 secret = sec,
                                 algorithm = alg,
                                 digits = dig,
                                 period = per\<rparr>)))"

text \<open>The \<open>catch\<close> logs the error and returns \<open>null\<close>.\<close>

definition parseOTPAuthURI ::
  "(string \<rightharpoonup> URL) \<Rightarrow> (string \<rightharpoonup> string) \<Rightarrow> string \<Rightarrow> ParsedOTPAuth option" where
  "parseOTPAuthURI newURL decodeURIComponent uri =
     (case parseOTPAuthURI_try newURL decodeURIComponent uri of
        Inl e \<Rightarrow> None
      | Inr parsed \<Rightarrow> Some parsed)"

definition is_base32 :: "char \<Rightarrow> bool" where
  "is_base32 c = (in_range CHR ''A'' CHR ''Z'' c \<or> in_range CHR ''2'' CHR ''7'' c)"

definition is_pad :: "char \<Rightarrow> bool" where
  "is_pad c = (c = CHR ''='')"




text \<open>The values the specification allows for the three parameters of a credential.\<close>

definition valid_algorithm :: "string \<Rightarrow> bool" where
  "valid_algorithm a = (a \<in> set [''SHA1'', ''SHA256'', ''SHA512''])"

definition integer_in :: "int \<Rightarrow> int \<Rightarrow> number \<Rightarrow> bool" where
  "integer_in lo hi n =
     (case n of NaN \<Rightarrow> False
      | Num r \<Rightarrow> r = of_int \<lfloor>r\<rfloor> \<and> of_int lo \<le> r \<and> r \<le> of_int hi)"


section \<open>hooks/useAccounts.ts\<close>

text \<open>The state of the hook: the list held by React and the snapshot in \<open>localStorage\<close>.\<close>

record store =
  accounts :: "Account list"
  localStorage :: "Account list option"

definition saveAccounts :: "Account list \<Rightarrow> store \<Rightarrow> store" where
  "saveAccounts newAccounts st = st\<lparr>localStorage := Some newAccounts, accounts := newAccounts\<rparr>"


definition removeAccount :: "string \<Rightarrow> store \<Rightarrow> store" where
  "removeAccount i st = saveAccounts (filter (\<lambda>acc. acc_id acc \<noteq> i) (accounts st)) st"

text \<open>\<open>{ ...acc, ...updates }\<close>\<close>

definition spread :: "Account \<Rightarrow> PartialAccount \<Rightarrow> Account" where
  "spread acc updates =
     \<lparr>issuer = (case upd_issuer updates of None \<Rightarrow> issuer acc | Some v \<Rightarrow> v),
      label = (case upd_label updates of None \<Rightarrow> label acc | Some v \<Rightarrow> v),
      secret = (case upd_secret updates of None \<Rightarrow> secret acc | Some v \<Rightarrow> v),
      algorithm = (case upd_algorithm updates of None \<Rightarrow> algorithm acc | Some v \<Rightarrow> v),
      digits = (case upd_digits updates of None \<Rightarrow> digits acc | Some v \<Rightarrow> v),
      period = (case upd_period updates of None \<Rightarrow> period acc | Some v \<Rightarrow> v),
      backupCodes = (case upd_backupCodes updates of None \<Rightarrow> backupCodes acc | Some v \<Rightarrow> v),
      acc_id = (case upd_id updates of None \<Rightarrow> acc_id acc | Some v \<Rightarrow> v),
      createdAt = (case upd_createdAt updates of None \<Rightarrow> createdAt acc | Some v \<Rightarrow> v)\<rparr>"

definition updateAccount :: "string \<Rightarrow> PartialAccount \<Rightarrow> store \<Rightarrow> store" where
  "updateAccount i updates st =
     saveAccounts (map (\<lambda>acc. if acc_id acc = i then spread acc updates else acc) (accounts st)) st"

definition updateBackupCodes :: "string \<Rightarrow> string list \<Rightarrow> store \<Rightarrow> store" where
  "updateBackupCodes i codes st =
     saveAccounts
       (map (\<lambda>acc. if acc_id acc = i then acc\<lparr>backupCodes := Some codes\<rparr> else acc) (accounts st))
       st"

definition importAccounts :: "Account list \<Rightarrow> store \<Rightarrow> store" where
  "importAccounts newAccounts st = saveAccounts (accounts st @ newAccounts) st"

definition clearAllAccounts :: "store \<Rightarrow> store" where
  "clearAllAccounts st = saveAccounts [] st"

section \<open>hooks/useTOTP.ts\<close>

text \<open>
  \<open>generateCode\<close>. The library is two parameters: \<open>fromBase32\<close> decodes the secret or throws,
  and \<open>generate\<close> stands for building the \<open>TOTP\<close> object from the issuer, label, algorithm,
  digits, period and key and calling its \<open>generate()\<close> at the current time.
\<close>

definition generateCode_try ::
  "(string \<rightharpoonup> nat list) \<Rightarrow>
   (string \<Rightarrow> string \<Rightarrow> string \<Rightarrow> number \<Rightarrow> number \<Rightarrow> nat list \<rightharpoonup> string) \<Rightarrow>
   Account \<Rightarrow> error + string" where
  "generateCode_try fromBase32 generate account =
     (case fromBase32 (toUpperCase (replace_ws (secret account))) of
        None \<Rightarrow> Inl TypeError
      | Some key \<Rightarrow>
          (case generate (issuer account) (label account) (algorithm account)
                  (digits account) (period account) key of
             None \<Rightarrow> Inl TypeError
           | Some code \<Rightarrow> Inr code))"

definition generateCode ::
  "(string \<rightharpoonup> nat list) \<Rightarrow>
   (string \<Rightarrow> string \<Rightarrow> string \<Rightarrow> number \<Rightarrow> number \<Rightarrow> nat list \<rightharpoonup> string) \<Rightarrow>
   Account \<Rightarrow> string" where
  "generateCode fromBase32 generate account =
     (case generateCode_try fromBase32 generate account of
        Inl e \<Rightarrow> ''------''
      | Inr code \<Rightarrow> code)"

text \<open>
  \<open>updateCode\<close>: \<open>now\<close> is \<open>Math.floor(Date.now() / 1000)\<close>, an integer, and
  \<open>remaining\<close> is what \<open>setTimeLeft\<close> receives.
\<close>

definition remaining :: "number \<Rightarrow> int \<Rightarrow> number" where
  "remaining per now = js_sub per (js_rem (Num (of_int now)) per)"

definition updateCode_timeLeft :: "number \<Rightarrow> int \<Rightarrow> number" where
  "updateCode_timeLeft per date_now = remaining per (date_now div 1000)"

section \<open>components/SettingsMenu.tsx\<close>

text \<open>
  The value \<open>JSON.parse\<close> returns. An object is the list of its keys and values; the
  value of a key is that of its first entry in the list, and a key without entry is absent.
\<close>

datatype json =
  JNull | JBool bool | JNum rat | JStr string | JArr "json list" | JObj "(string \<times> json) list"

text \<open>The \<open>zod\<close> validators the schemas are built from; \<open>None\<close> is a failed validation.\<close>

definition z_string :: "json option \<Rightarrow> string option" where
  "z_string v = (case v of Some (JStr s) \<Rightarrow> Some s | _ \<Rightarrow> None)"

definition z_string_max :: "nat \<Rightarrow> json option \<Rightarrow> string option" where
  "z_string_max n v =
     (case v of Some (JStr s) \<Rightarrow> if length s \<le> n then Some s else None | _ \<Rightarrow> None)"

definition z_enum :: "string list \<Rightarrow> json option \<Rightarrow> string option" where
  "z_enum vs v = (case v of Some (JStr s) \<Rightarrow> if s \<in> set vs then Some s else None | _ \<Rightarrow> None)"

definition z_number :: "json option \<Rightarrow> rat option" where
  "z_number v = (case v of Some (JNum r) \<Rightarrow> Some r | _ \<Rightarrow> None)"

definition z_number_min_max :: "rat \<Rightarrow> rat \<Rightarrow> json option \<Rightarrow> rat option" where
  "z_number_min_max lo hi v =
     (case v of Some (JNum r) \<Rightarrow> if lo \<le> r \<and> r \<le> hi then Some r else None | _ \<Rightarrow> None)"

definition z_literal_1 :: "json option \<Rightarrow> rat option" where
  "z_literal_1 v = (case v of Some (JNum r) \<Rightarrow> if r = 1 then Some r else None | _ \<Rightarrow> None)"

definition z_array :: "(json option \<Rightarrow> 'a option) \<Rightarrow> json option \<Rightarrow> 'a list option" where
  "z_array item v = (case v of Some (JArr xs) \<Rightarrow> those (map (\<lambda>x. item (Some x)) xs) | _ \<Rightarrow> None)"

definition z_optional :: "(json option \<Rightarrow> 'a option) \<Rightarrow> json option \<Rightarrow> 'a option option" where
  "z_optional item v = (case v of None \<Rightarrow> Some None | Some x \<Rightarrow> map_option Some (item v))"

definition accountSchema :: "json option \<Rightarrow> Account option" where
  "accountSchema v =
     (case v of
        Some (JObj kv) \<Rightarrow>
          do {
            i \<leftarrow> z_string (map_of kv ''id'');
            iss \<leftarrow> z_string_max 100 (map_of kv ''issuer'');
            lab \<leftarrow> z_string_max 200 (map_of kv ''label'');
            sec \<leftarrow> z_string_max 500 (map_of kv ''secret'');
            alg \<leftarrow> z_enum [''SHA1'', ''SHA256'', ''SHA512''] (map_of kv ''algorithm'');
            dig \<leftarrow> z_number_min_max 1 10 (map_of kv ''digits'');
            per \<leftarrow> z_number_min_max 1 300 (map_of kv ''period'');
            cre \<leftarrow> z_number (map_of kv ''createdAt'');
            bak \<leftarrow> z_optional (z_array (z_string_max 100)) (map_of kv ''backupCodes'');
            Some \<lparr>issuer = iss, label = lab, secret = sec, algorithm = alg,
                  digits = Num dig, period = Num per, backupCodes = bak,
                  acc_id = i, createdAt = Num cre\<rparr>
          }
      | _ \<Rightarrow> None)"

record Backup =
  version :: rat
  exportedAt :: rat
  backup_accounts :: "Account list"

definition backupSchema :: "json option \<Rightarrow> Backup option" where
  "backupSchema v =
     (case v of
        Some (JObj kv) \<Rightarrow>
          do {
            ver \<leftarrow> z_literal_1 (map_of kv ''version'');
            exp \<leftarrow> z_number (map_of kv ''exportedAt'');
            accs \<leftarrow> z_array accountSchema (map_of kv ''accounts'');
            Some \<lparr>version = ver, exportedAt = exp, backup_accounts = accs\<rparr>
          }
      | _ \<Rightarrow> None)"

datatype toast = Toast_error string | Toast_imported nat | Toast_added string

text \<open>
  \<open>handleImport\<close>. \<open>file\<close> is the text of the chosen file, if one was chosen; the \<open>k\<close>-th
  call of \<open>crypto.randomUUID()\<close> and of \<open>Date.now()\<close> inside the \<open>map\<close> return
  \<open>randomUUID k\<close> and \<open>Date_now k\<close>; \<open>onImportAccounts\<close> is the store's \<open>importAccounts\<close>.
\<close>

definition handleImport ::
  "(string \<rightharpoonup> json) \<Rightarrow> (nat \<Rightarrow> string) \<Rightarrow> (nat \<Rightarrow> number) \<Rightarrow> string option \<Rightarrow> store \<Rightarrow>
   toast option \<times> store" where
  "handleImport JSON_parse randomUUID Date_now file st =
     (case file of
        None \<Rightarrow> (None, st)
      | Some text \<Rightarrow>
          (case JSON_parse text of
             None \<Rightarrow> (Some (Toast_error ''Failed to read backup file''), st)
           | Some data \<Rightarrow>
               (case backupSchema (Some data) of
                  None \<Rightarrow> (Some (Toast_error ''Invalid backup file format''), st)
                | Some result \<Rightarrow>
                    let importedAccounts =
                          map (\<lambda>(k, acc).
                                 \<lparr>issuer = issuer acc, label = label acc, secret = secret acc,
                                  algorithm = algorithm acc, digits = digits acc,
                                  period = period acc, backupCodes = backupCodes acc,
                                  acc_id = randomUUID k, createdAt = Date_now k\<rparr>)
                            (zip [0..<length (backup_accounts result)] (backup_accounts result))
                    in (Some (Toast_imported (length importedAccounts)),
                        importAccounts importedAccounts st))))"

section \<open>pages/Index.tsx\<close>




text \<open>
  The fields of an account that an import carries over, read against the object \<open>j\<close> of
  the bundle: each is the value the bundle has under that key.
\<close>

definition carried_over :: "json \<Rightarrow> Account \<Rightarrow> bool" where
  "carried_over j a =
     (case j of
        JObj kv \<Rightarrow>
          map_of kv ''issuer'' = Some (JStr (issuer a)) \<and>
          map_of kv ''label'' = Some (JStr (label a)) \<and>
          map_of kv ''secret'' = Some (JStr (secret a)) \<and>
          map_of kv ''algorithm'' = Some (JStr (algorithm a)) \<and>
          map_option Num (z_number (map_of kv ''digits'')) = Some (digits a) \<and>
          map_option Num (z_number (map_of kv ''period'')) = Some (period a) \<and>
          (case backupCodes a of
             None \<Rightarrow> map_of kv ''backupCodes'' = None
           | Some codes \<Rightarrow> map_of kv ''backupCodes'' = Some (JArr (map JStr codes)))
      | _ \<Rightarrow> False)"

section \<open>Properties\<close>

subsection \<open>Secrets\<close>






lemma pad_fixed:
  "is_pad c \<Longrightarrow> toUpperCase_char c = c \<and> \<not> isWhiteSpace c \<and> \<not> is_base32 c"
  by (auto simp add: is_base32_def toUpperCase_char_def isWhiteSpace_def is_pad_def
        in_range_def charCode_def)













subsection \<open>The countdown\<close>




subsection \<open>The account store\<close>

lemma accounts_saveAccounts: "accounts (saveAccounts xs st) = xs"
  by (simp add: saveAccounts_def)

text \<open>
  Claim C10. \<open>updateAccount\<close> and \<open>updateBackupCodes\<close> keep the length and the order of
  the account list, and every account whose id differs from the given one is unchanged.
\<close>

theorem update_frame:
  "length (accounts (updateAccount i updates st)) = length (accounts st) \<and>
   length (accounts (updateBackupCodes i codes st)) = length (accounts st) \<and>
   (\<forall>k < length (accounts st). acc_id (accounts st ! k) \<noteq> i \<longrightarrow>
      accounts (updateAccount i updates st) ! k = accounts st ! k \<and>
      accounts (updateBackupCodes i codes st) ! k = accounts st ! k)"
  by (simp add: updateAccount_def updateBackupCodes_def accounts_saveAccounts)

theorem update_frame_witness:
  "(1::nat) < length [\<lparr>issuer = ''A'', label = ''a'', secret = ''S'', algorithm = ''SHA1'',
        digits = Num 6, period = Num 30, backupCodes = None, acc_id = ''x'', createdAt = Num 1\<rparr>,
      \<lparr>issuer = ''B'', label = ''b'', secret = ''T'', algorithm = ''SHA1'',
        digits = Num 6, period = Num 30, backupCodes = None, acc_id = ''y'', createdAt = Num 2\<rparr>]
   \<and> ''y'' \<noteq> ''x''
   \<and> accounts (updateAccount ''x''
        \<lparr>upd_id = None, upd_issuer = Some ''C'', upd_label = None, upd_secret = None,
         upd_algorithm = None, upd_digits = None, upd_period = None, upd_createdAt = None,
         upd_backupCodes = None\<rparr>
        \<lparr>accounts = [\<lparr>issuer = ''A'', label = ''a'', secret = ''S'', algorithm = ''SHA1'',
            digits = Num 6, period = Num 30, backupCodes = None, acc_id = ''x'', createdAt = Num 1\<rparr>,
          \<lparr>issuer = ''B'', label = ''b'', secret = ''T'', algorithm = ''SHA1'',
            digits = Num 6, period = Num 30, backupCodes = None, acc_id = ''y'', createdAt = Num 2\<rparr>],
         localStorage = None\<rparr>) ! 1
     = \<lparr>issuer = ''B'', label = ''b'', secret = ''T'', algorithm = ''SHA1'',
        digits = Num 6, period = Num 30, backupCodes = None, acc_id = ''y'', createdAt = Num 2\<rparr>
   \<and> accounts (updateBackupCodes ''x'' [''r1'', ''r2'']
        \<lparr>accounts = [\<lparr>issuer = ''A'', label = ''a'', secret = ''S'', algorithm = ''SHA1'',
            digits = Num 6, period = Num 30, backupCodes = None, acc_id = ''x'', createdAt = Num 1\<rparr>,
          \<lparr>issuer = ''B'', label = ''b'', secret = ''T'', algorithm = ''SHA1'',
            digits = Num 6, period = Num 30, backupCodes = None, acc_id = ''y'', createdAt = Num 2\<rparr>],
         localStorage = None\<rparr>)
     = [\<lparr>issuer = ''A'', label = ''a'', secret = ''S'', algorithm = ''SHA1'',
            digits = Num 6, period = Num 30, backupCodes = Some [''r1'', ''r2''], acc_id = ''x'',
            createdAt = Num 1\<rparr>,
        \<lparr>issuer = ''B'', label = ''b'', secret = ''T'', algorithm = ''SHA1'',
            digits = Num 6, period = Num 30, backupCodes = None, acc_id = ''y'', createdAt = Num 2\<rparr>]"
proof -
  let ?a = "\<lparr>issuer = ''A'', label = ''a'', secret = ''S'', algorithm = ''SHA1'',
            digits = Num 6, period = Num 30, backupCodes = None, acc_id = ''x'', createdAt = Num 1\<rparr>"
  let ?b = "\<lparr>issuer = ''B'', label = ''b'', secret = ''T'', algorithm = ''SHA1'',
            digits = Num 6, period = Num 30, backupCodes = None, acc_id = ''y'', createdAt = Num 2\<rparr>"
  let ?st = "\<lparr>accounts = [?a, ?b], localStorage = None\<rparr>"
  let ?u = "\<lparr>upd_id = None, upd_issuer = Some ''C'', upd_label = None, upd_secret = None,
         upd_algorithm = None, upd_digits = None, upd_period = None, upd_createdAt = None,
         upd_backupCodes = None\<rparr>"
  have "accounts (updateAccount ''x'' ?u ?st) ! 1 = ?b"
    using update_frame [of "''x''" ?u ?st "[''r1'', ''r2'']"] by simp
  moreover have "accounts (updateBackupCodes ''x'' [''r1'', ''r2''] ?st) =
      [?a\<lparr>backupCodes := Some [''r1'', ''r2'']\<rparr>, ?b]"
    by (simp add: updateBackupCodes_def accounts_saveAccounts)
  ultimately show ?thesis by simp
qed

subsection \<open>Code generation\<close>

text \<open>
  Claim C9. When decoding the secret of an account fails, \<open>generateCode\<close> catches the
  exception and returns the placeholder \<open>------\<close>, which has no digit.
\<close>

theorem generateCode_bad_secret:
  assumes "fromBase32 (toUpperCase (replace_ws (secret account))) = None"
  shows "generateCode_try fromBase32 generate account = Inl TypeError
         \<and> generateCode fromBase32 generate account = ''------''
         \<and> \<not> list_ex is_digit (generateCode fromBase32 generate account)"
proof -
  have t: "generateCode_try fromBase32 generate account = Inl TypeError"
    using assms by (simp add: generateCode_try_def)
  then have g: "generateCode fromBase32 generate account = ''------''"
    by (simp add: generateCode_def)
  have "\<not> list_ex is_digit ''------''"
    by (simp add: is_digit_def in_range_def charCode_def)
  with t g show ?thesis by simp
qed

theorem generateCode_bad_secret_witness:
  "[''JBSWY3DPEHPK3PXP'' \<mapsto> [72, 101, 108, 108, 111, 33, 222, 173, 190, 239 :: nat]]
     (toUpperCase (replace_ws (secret
       \<lparr>issuer = ''A'', label = ''a'', secret = ''not base32!'', algorithm = ''SHA1'',
        digits = Num 6, period = Num 30, backupCodes = None, acc_id = ''x'',
        createdAt = Num 1\<rparr>))) = None
   \<and> generateCode [''JBSWY3DPEHPK3PXP'' \<mapsto> [72, 101, 108, 108, 111, 33, 222, 173, 190, 239]]
       (\<lambda>i l a d p k. Some ''123456'')
       \<lparr>issuer = ''A'', label = ''a'', secret = ''not base32!'', algorithm = ''SHA1'',
        digits = Num 6, period = Num 30, backupCodes = None, acc_id = ''x'',
        createdAt = Num 1\<rparr> = ''------''"
proof -
  have h: "[''JBSWY3DPEHPK3PXP'' \<mapsto> [72, 101, 108, 108, 111, 33, 222, 173, 190, 239 :: nat]]
     (toUpperCase (replace_ws (secret
       \<lparr>issuer = ''A'', label = ''a'', secret = ''not base32!'', algorithm = ''SHA1'',
        digits = Num 6, period = Num 30, backupCodes = None, acc_id = ''x'',
        createdAt = Num 1\<rparr>))) = None"
    by (simp add: toUpperCase_def replace_ws_def isWhiteSpace_def)
  from generateCode_bad_secret
         [of "[''JBSWY3DPEHPK3PXP'' \<mapsto> [72, 101, 108, 108, 111, 33, 222, 173, 190, 239]]"
           "\<lparr>issuer = ''A'', label = ''a'', secret = ''not base32!'', algorithm = ''SHA1'',
            digits = Num 6, period = Num 30, backupCodes = None, acc_id = ''x'',
            createdAt = Num 1\<rparr>" "\<lambda>i l a d p k. Some ''123456''", OF h] h
  show ?thesis by simp
qed

subsection \<open>Backup bundles\<close>

lemma those_map_None: "x \<in> set xs \<Longrightarrow> f x = None \<Longrightarrow> those (map f xs) = None"
  by (induction xs) (auto split: option.splits)

lemma those_map_Some:
  "those (map f xs) = Some ys \<Longrightarrow>
     length ys = length xs \<and> (\<forall>k < length xs. f (xs ! k) = Some (ys ! k))"
proof (induction xs arbitrary: ys)
  case Nil
  then show ?case by simp
next
  case (Cons x xs)
  from Cons.prems obtain y zs where y: "f x = Some y" and zs: "those (map f xs) = Some zs"
    and ys: "ys = y # zs"
    by (auto split: option.splits)
  from Cons.IH [OF zs] y ys show ?case
    by (auto simp add: nth_Cons split: nat.splits)
qed

lemma backupSchema_version:
  "map_of kv ''version'' \<noteq> Some (JNum 1) \<Longrightarrow> backupSchema (Some (JObj kv)) = None"
  by (auto simp add: backupSchema_def z_literal_1_def split: option.splits json.splits)

lemma backupSchema_account:
  assumes "map_of kv ''accounts'' = Some (JArr xs)"
    and "list_ex (\<lambda>x. accountSchema (Some x) = None) xs"
  shows "backupSchema (Some (JObj kv)) = None"
proof -
  from assms(2) obtain x where "x \<in> set xs" "accountSchema (Some x) = None"
    unfolding list_ex_iff by blast
  then have "those (map (\<lambda>x. accountSchema (Some x)) xs) = None"
    by (rule those_map_None)
  then have "z_array accountSchema (map_of kv ''accounts'') = None"
    using assms(1) by (simp add: z_array_def)
  then show ?thesis
    by (simp add: backupSchema_def split: Option.bind_split)
qed

text \<open>
  Claim C5. A bundle whose \<open>version\<close> is not the number 1, or one of whose accounts fails
  \<open>accountSchema\<close> (for instance with \<open>digits = 11\<close>), is rejected as a whole: the import
  reports an invalid file and the store is what it was.
\<close>

theorem handleImport_atomic:
  assumes "JSON_parse text = Some (JObj kv)"
    and "map_of kv ''version'' \<noteq> Some (JNum 1) \<or>
         (case map_of kv ''accounts'' of
            Some (JArr xs) \<Rightarrow> list_ex (\<lambda>x. accountSchema (Some x) = None) xs
          | _ \<Rightarrow> False)"
  shows "handleImport JSON_parse randomUUID Date_now (Some text) st =
           (Some (Toast_error ''Invalid backup file format''), st)"
proof -
  have "backupSchema (Some (JObj kv)) = None"
    using assms(2)
    by (auto simp add: backupSchema_version backupSchema_account split: option.splits json.splits)
  with assms(1) show ?thesis by (simp add: handleImport_def)
qed


theorem handleImport_atomic_witness:
  "[''backup.json'' \<mapsto>
      JObj [(''version'', JNum 1), (''exportedAt'', JNum 1700000000000),
            (''accounts'', JArr [
               JObj [(''id'', JStr ''a1''), (''issuer'', JStr ''ACME''), (''label'', JStr ''bob''),
                     (''secret'', JStr ''JBSWY3DPEHPK3PXP''), (''algorithm'', JStr ''SHA1''),
                     (''digits'', JNum 6), (''period'', JNum 30), (''createdAt'', JNum 1)],
               JObj [(''id'', JStr ''a2''), (''issuer'', JStr ''Corp''), (''label'', JStr ''eve''),
                     (''secret'', JStr ''JBSWY3DPEHPK3PXP''), (''algorithm'', JStr ''SHA1''),
                     (''digits'', JNum 11), (''period'', JNum 30), (''createdAt'', JNum 2)]])]]
     ''backup.json'' \<noteq> None
   \<and> accountSchema (Some
        (JObj [(''id'', JStr ''a2''), (''issuer'', JStr ''Corp''), (''label'', JStr ''eve''),
               (''secret'', JStr ''JBSWY3DPEHPK3PXP''), (''algorithm'', JStr ''SHA1''),
               (''digits'', JNum 11), (''period'', JNum 30), (''createdAt'', JNum 2)])) = None
   \<and> handleImport
       [''backup.json'' \<mapsto>
          JObj [(''version'', JNum 1), (''exportedAt'', JNum 1700000000000),
            (''accounts'', JArr [
               JObj [(''id'', JStr ''a1''), (''issuer'', JStr ''ACME''), (''label'', JStr ''bob''),
                     (''secret'', JStr ''JBSWY3DPEHPK3PXP''), (''algorithm'', JStr ''SHA1''),
                     (''digits'', JNum 6), (''period'', JNum 30), (''createdAt'', JNum 1)],
               JObj [(''id'', JStr ''a2''), (''issuer'', JStr ''Corp''), (''label'', JStr ''eve''),
                     (''secret'', JStr ''JBSWY3DPEHPK3PXP''), (''algorithm'', JStr ''SHA1''),
                     (''digits'', JNum 11), (''period'', JNum 30), (''createdAt'', JNum 2)]])]]
       (\<lambda>k. ''fresh'') (\<lambda>k. Num 1700000000001) (Some ''backup.json'')
       \<lparr>accounts = [\<lparr>issuer = ''Old'', label = ''amy'', secret = ''GEZDGNBVGY3TQOJQ'',
                      algorithm = ''SHA1'', digits = Num 6, period = Num 30,
                      backupCodes = None, acc_id = ''a1'', createdAt = Num 0\<rparr>],
        localStorage = None\<rparr>
     = (Some (Toast_error ''Invalid backup file format''),
        \<lparr>accounts = [\<lparr>issuer = ''Old'', label = ''amy'', secret = ''GEZDGNBVGY3TQOJQ'',
                      algorithm = ''SHA1'', digits = Num 6, period = Num 30,
                      backupCodes = None, acc_id = ''a1'', createdAt = Num 0\<rparr>],
        localStorage = None\<rparr>)"
proof -
  let ?good = "JObj [(''id'', JStr ''a1''), (''issuer'', JStr ''ACME''), (''label'', JStr ''bob''),
                     (''secret'', JStr ''JBSWY3DPEHPK3PXP''), (''algorithm'', JStr ''SHA1''),
                     (''digits'', JNum 6), (''period'', JNum 30), (''createdAt'', JNum 1)]"
  let ?bad = "JObj [(''id'', JStr ''a2''), (''issuer'', JStr ''Corp''), (''label'', JStr ''eve''),
                     (''secret'', JStr ''JBSWY3DPEHPK3PXP''), (''algorithm'', JStr ''SHA1''),
                     (''digits'', JNum 11), (''period'', JNum 30), (''createdAt'', JNum 2)]"
  let ?kv = "[(''version'', JNum 1), (''exportedAt'', JNum 1700000000000),
              (''accounts'', JArr [?good, ?bad])]"
  have bad: "accountSchema (Some ?bad) = None"
    by (simp add: accountSchema_def z_string_def z_string_max_def z_enum_def
          z_number_min_max_def)
  have h1: "[''backup.json'' \<mapsto> JObj ?kv] ''backup.json'' = Some (JObj ?kv)"
    by simp
  have h2: "map_of ?kv ''version'' \<noteq> Some (JNum 1) \<or>
         (case map_of ?kv ''accounts'' of
            Some (JArr xs) \<Rightarrow> list_ex (\<lambda>x. accountSchema (Some x) = None) xs
          | _ \<Rightarrow> False)"
    using bad by simp
  from handleImport_atomic [of "[''backup.json'' \<mapsto> JObj ?kv]" "''backup.json''" ?kv, OF h1 h2] bad
  show ?thesis by simp
qed


lemma z_string_max_Some: "z_string_max n v = Some s \<Longrightarrow> v = Some (JStr s)"
  by (auto simp add: z_string_max_def split: option.splits json.splits if_splits)

lemma z_enum_Some: "z_enum vs v = Some s \<Longrightarrow> v = Some (JStr s)"
  by (auto simp add: z_enum_def split: option.splits json.splits if_splits)

lemma z_number_min_max_Some: "z_number_min_max lo hi v = Some r \<Longrightarrow> z_number v = Some r"
  by (auto simp add: z_number_min_max_def z_number_def split: option.splits json.splits if_splits)

lemma z_array_strings:
  assumes "z_array (z_string_max n) v = Some codes"
  shows "v = Some (JArr (map JStr codes))"
proof -
  from assms obtain ys where v: "v = Some (JArr ys)"
    and t: "those (map (\<lambda>x. z_string_max n (Some x)) ys) = Some codes"
    by (auto simp add: z_array_def split: option.splits json.splits)
  from those_map_Some [OF t] have l: "length codes = length ys"
    and e: "\<forall>k < length ys. z_string_max n (Some (ys ! k)) = Some (codes ! k)" by simp_all
  have "ys = map JStr codes"
  proof (rule nth_equalityI)
    show "length ys = length (map JStr codes)" using l by simp
  next
    fix k assume "k < length ys"
    with e l show "ys ! k = map JStr codes ! k"
      by (auto dest!: z_string_max_Some)
  qed
  with v show ?thesis by simp
qed

lemma z_optional_backupCodes:
  "z_optional (z_array (z_string_max n)) v = Some bak \<Longrightarrow>
     (case bak of None \<Rightarrow> v = None | Some codes \<Rightarrow> v = Some (JArr (map JStr codes)))"
  by (cases v) (auto simp add: z_optional_def dest: z_array_strings split: option.splits)

lemma accountSchema_verbatim:
  assumes "accountSchema (Some j) = Some a"
  shows "carried_over j a"
proof -
  from assms obtain kv where j: "j = JObj kv"
    by (auto simp add: accountSchema_def split: json.splits)
  from assms j obtain i iss lab sec alg dig per cre bak where
    "z_string_max 100 (map_of kv ''issuer'') = Some iss"
    "z_string_max 200 (map_of kv ''label'') = Some lab"
    "z_string_max 500 (map_of kv ''secret'') = Some sec"
    "z_enum [''SHA1'', ''SHA256'', ''SHA512''] (map_of kv ''algorithm'') = Some alg"
    "z_number_min_max 1 10 (map_of kv ''digits'') = Some dig"
    "z_number_min_max 1 300 (map_of kv ''period'') = Some per"
    "z_optional (z_array (z_string_max 100)) (map_of kv ''backupCodes'') = Some bak"
    and a: "a = \<lparr>issuer = iss, label = lab, secret = sec, algorithm = alg,
                  digits = Num dig, period = Num per, backupCodes = bak,
                  acc_id = i, createdAt = Num cre\<rparr>"
    by (auto simp add: accountSchema_def split: Option.bind_splits)
  then show ?thesis
    using j a
    by (auto simp add: carried_over_def dest!: z_string_max_Some z_enum_Some
          z_number_min_max_Some z_optional_backupCodes split: option.splits)
qed


lemma backupSchema_accounts:
  assumes "backupSchema (Some (JObj kv)) = Some result"
    and "map_of kv ''accounts'' = Some (JArr xs)"
  shows "length (backup_accounts result) = length xs \<and>
         (\<forall>k < length xs. accountSchema (Some (xs ! k)) = Some (backup_accounts result ! k))"
proof -
  from assms have "those (map (\<lambda>x. accountSchema (Some x)) xs) = Some (backup_accounts result)"
    by (auto simp add: backupSchema_def z_array_def split: Option.bind_splits)
  then show ?thesis by (rule those_map_Some)
qed

lemma handleImport_accounts:
  assumes "JSON_parse text = Some data" and "backupSchema (Some data) = Some result"
  shows "accounts (snd (handleImport JSON_parse randomUUID Date_now (Some text) st)) =
         accounts st @
         map (\<lambda>(k, acc).
                \<lparr>issuer = issuer acc, label = label acc, secret = secret acc,
                 algorithm = algorithm acc, digits = digits acc,
                 period = period acc, backupCodes = backupCodes acc,
                 acc_id = randomUUID k, createdAt = Date_now k\<rparr>)
           (zip [0..<length (backup_accounts result)] (backup_accounts result))"
  using assms by (simp add: handleImport_def importAccounts_def accounts_saveAccounts)

lemma carried_over_copy:
  "carried_over j acc \<Longrightarrow>
   carried_over j \<lparr>issuer = issuer acc, label = label acc, secret = secret acc,
                   algorithm = algorithm acc, digits = digits acc,
                   period = period acc, backupCodes = backupCodes acc,
                   acc_id = u, createdAt = t\<rparr>"
  by (simp add: carried_over_def split: json.splits)

lemma map_acc_id_zip:
  "map acc_id (map (\<lambda>(k, acc).
        \<lparr>issuer = issuer acc, label = label acc, secret = secret acc,
         algorithm = algorithm acc, digits = digits acc,
         period = period acc, backupCodes = backupCodes acc,
         acc_id = f k, createdAt = g k\<rparr>) (zip [0..<length accs] accs))
   = map f [0..<length accs]"
  by (rule nth_equalityI) simp_all

text \<open>
  Claim C6. After a successful import the store is the old list followed by one account
  for each account of the bundle, in order. The \<open>k\<close>-th of them has the \<open>k\<close>-th generated
  id and time stamp, whatever id the bundle gave, and the issuer, label, secret, algorithm,
  digits, period and backup codes of the bundle. When the generated ids are distinct and
  not in the store, the ids of the new list are distinct.
\<close>

theorem handleImport_identity:
  assumes "JSON_parse text = Some (JObj kv)"
    and "backupSchema (Some (JObj kv)) = Some result"
    and "map_of kv ''accounts'' = Some (JArr xs)"
  shows "let new = accounts (snd (handleImport JSON_parse randomUUID Date_now (Some text) st));
             n = length (accounts st)
         in take n new = accounts st \<and> length new = n + length xs \<and>
            (\<forall>k < length xs.
               acc_id (new ! (n + k)) = randomUUID k \<and>
               createdAt (new ! (n + k)) = Date_now k \<and>
               carried_over (xs ! k) (new ! (n + k))) \<and>
            (distinct (map acc_id (accounts st)) \<and>
             distinct (map randomUUID [0..<length xs]) \<and>
             (\<forall>k < length xs. randomUUID k \<notin> set (map acc_id (accounts st)))
             \<longrightarrow> distinct (map acc_id new))"
proof -
  let ?accs = "backup_accounts result"
  let ?f = "\<lambda>(k, acc).
                \<lparr>issuer = issuer acc, label = label acc, secret = secret acc,
                 algorithm = algorithm acc, digits = digits acc,
                 period = period acc, backupCodes = backupCodes acc,
                 acc_id = randomUUID k, createdAt = Date_now k\<rparr>"
  let ?imported = "map ?f (zip [0..<length ?accs] ?accs)"
  let ?new = "accounts (snd (handleImport JSON_parse randomUUID Date_now (Some text) st))"
  have new: "?new = accounts st @ ?imported"
    using assms(1,2) by (rule handleImport_accounts)
  from backupSchema_accounts [OF assms(2,3)]
  have len: "length ?accs = length xs"
    and each: "\<And>k. k < length xs \<Longrightarrow> accountSchema (Some (xs ! k)) = Some (?accs ! k)"
    by simp_all
  have a: "take (length (accounts st)) ?new = accounts st" by (simp add: new)
  have b: "length ?new = length (accounts st) + length xs" by (simp add: new len)
  have c: "acc_id (?new ! (length (accounts st) + k)) = randomUUID k \<and>
           createdAt (?new ! (length (accounts st) + k)) = Date_now k \<and>
           carried_over (xs ! k) (?new ! (length (accounts st) + k))" if k: "k < length xs" for k
  proof -
    have "?new ! (length (accounts st) + k) = ?f (k, ?accs ! k)"
      using k len by (simp add: new nth_append)
    moreover have "carried_over (xs ! k) (?accs ! k)"
      using each [OF k] by (rule accountSchema_verbatim)
    ultimately show ?thesis by (simp add: carried_over_copy)
  qed
  have d: "distinct (map acc_id ?new)"
    if "distinct (map acc_id (accounts st))" "distinct (map randomUUID [0..<length xs])"
       "\<forall>k < length xs. randomUUID k \<notin> set (map acc_id (accounts st))"
  proof -
    have "map acc_id ?imported = map randomUUID [0..<length ?accs]"
      by (rule map_acc_id_zip)
    then have "map acc_id ?new = map acc_id (accounts st) @ map randomUUID [0..<length xs]"
      by (simp only: new map_append len)
    moreover have "set (map acc_id (accounts st)) \<inter> set (map randomUUID [0..<length xs]) = {}"
    proof (rule ccontr)
      assume "set (map acc_id (accounts st)) \<inter> set (map randomUUID [0..<length xs]) \<noteq> {}"
      then obtain u where u: "u \<in> set (map acc_id (accounts st))"
        and "u \<in> set (map randomUUID [0..<length xs])" by blast
      then obtain k where "k < length xs" "u = randomUUID k"
        by auto
      with u that(3) show False by blast
    qed
    ultimately show ?thesis using that(1,2) by (simp only: distinct_append)
  qed
  from a b c d show ?thesis unfolding Let_def by blast
qed


theorem handleImport_identity_witness:
  "let kv = [(''version'', JNum 1), (''exportedAt'', JNum 1700000000000),
            (''accounts'', JArr [
               JObj [(''id'', JStr ''a1''), (''issuer'', JStr ''ACME''), (''label'', JStr ''bob''),
                     (''secret'', JStr ''JBSWY3DPEHPK3PXP''), (''algorithm'', JStr ''SHA256''),
                     (''digits'', JNum 8), (''period'', JNum 60), (''createdAt'', JNum 1),
                     (''backupCodes'', JArr [JStr ''r1'', JStr ''r2''])]])];
       old = \<lparr>issuer = ''Old'', label = ''amy'', secret = ''GEZDGNBVGY3TQOJQ'',
                      algorithm = ''SHA1'', digits = Num 6, period = Num 30,
                      backupCodes = None, acc_id = ''a1'', createdAt = Num 0\<rparr>
   in [''backup.json'' \<mapsto> JObj kv] ''backup.json'' = Some (JObj kv)
    \<and> backupSchema (Some (JObj kv)) \<noteq> None
    \<and> map_of kv ''accounts'' \<noteq> None
    \<and> (0::nat) < length [JObj [(''id'', JStr ''a1'')]]
    \<and> distinct (map acc_id [old])
    \<and> ''f0'' \<notin> set (map acc_id [old])
    \<and> accounts (snd (handleImport [''backup.json'' \<mapsto> JObj kv]
          (\<lambda>k. if k = 0 then ''f0'' else ''f1'') (\<lambda>k. Num 1700000000001) (Some ''backup.json'')
          \<lparr>accounts = [old], localStorage = None\<rparr>))
       = [old,
          \<lparr>issuer = ''ACME'', label = ''bob'', secret = ''JBSWY3DPEHPK3PXP'',
           algorithm = ''SHA256'', digits = Num 8, period = Num 60,
           backupCodes = Some [''r1'', ''r2''], acc_id = ''f0'',
           createdAt = Num 1700000000001\<rparr>]
    \<and> distinct (map acc_id (accounts (snd (handleImport [''backup.json'' \<mapsto> JObj kv]
          (\<lambda>k. if k = 0 then ''f0'' else ''f1'') (\<lambda>k. Num 1700000000001) (Some ''backup.json'')
          \<lparr>accounts = [old], localStorage = None\<rparr>))))"
proof -
  let ?x = "JObj [(''id'', JStr ''a1''), (''issuer'', JStr ''ACME''), (''label'', JStr ''bob''),
                     (''secret'', JStr ''JBSWY3DPEHPK3PXP''), (''algorithm'', JStr ''SHA256''),
                     (''digits'', JNum 8), (''period'', JNum 60), (''createdAt'', JNum 1),
                     (''backupCodes'', JArr [JStr ''r1'', JStr ''r2''])]"
  let ?kv = "[(''version'', JNum 1), (''exportedAt'', JNum 1700000000000),
            (''accounts'', JArr [?x])]"
  let ?old = "\<lparr>issuer = ''Old'', label = ''amy'', secret = ''GEZDGNBVGY3TQOJQ'',
                      algorithm = ''SHA1'', digits = Num 6, period = Num 30,
                      backupCodes = None, acc_id = ''a1'', createdAt = Num 0\<rparr>"
  let ?res = "\<lparr>version = 1, exportedAt = 1700000000000, backup_accounts =
       [\<lparr>issuer = ''ACME'', label = ''bob'', secret = ''JBSWY3DPEHPK3PXP'',
           algorithm = ''SHA256'', digits = Num 8, period = Num 60,
           backupCodes = Some [''r1'', ''r2''], acc_id = ''a1'',
           createdAt = Num 1\<rparr>]\<rparr>"
  let ?st = "\<lparr>accounts = [?old], localStorage = None\<rparr>"
  let ?R = "\<lambda>k::nat. if k = 0 then ''f0'' else ''f1''"
  let ?D = "\<lambda>k::nat. Num 1700000000001"
  have h1: "[''backup.json'' \<mapsto> JObj ?kv] ''backup.json'' = Some (JObj ?kv)"
    by simp
  have h2: "backupSchema (Some (JObj ?kv)) = Some ?res"
    by (simp add: backupSchema_def accountSchema_def z_string_def z_string_max_def z_enum_def
          z_number_min_max_def z_number_def z_literal_1_def z_array_def z_optional_def)
  have h3: "map_of ?kv ''accounts'' = Some (JArr [?x])"
    by simp
  have e: "accounts (snd (handleImport [''backup.json'' \<mapsto> JObj ?kv] ?R ?D
             (Some ''backup.json'') ?st)) =
           [?old, \<lparr>issuer = ''ACME'', label = ''bob'', secret = ''JBSWY3DPEHPK3PXP'',
           algorithm = ''SHA256'', digits = Num 8, period = Num 60,
           backupCodes = Some [''r1'', ''r2''], acc_id = ''f0'',
           createdAt = Num 1700000000001\<rparr>]"
    using h2 by (simp add: handleImport_def importAccounts_def saveAccounts_def Let_def)
  from handleImport_identity [of "[''backup.json'' \<mapsto> JObj ?kv]" "''backup.json''" ?kv
        ?res "[?x]" ?R ?D ?st, OF h1 h2 h3]
  have "distinct (map acc_id (accounts (snd (handleImport [''backup.json'' \<mapsto> JObj ?kv] ?R ?D
             (Some ''backup.json'') ?st))))"
    unfolding Let_def by simp
  with h1 h2 h3 e show ?thesis unfolding Let_def by simp
qed

subsection \<open>The provisioning URI parser\<close>

lemma parseInt_6: "parseInt ''6'' = Num 6"
  by (simp add: parseInt_def isWhiteSpace_def is_digit_def in_range_def charCode_def
        digits_value_def)

lemma parseInt_30: "parseInt ''30'' = Num 30"
  by (simp add: parseInt_def isWhiteSpace_def is_digit_def in_range_def charCode_def
        digits_value_def)

lemma parseOTPAuthURI_try_no_url:
  "newURL uri = None \<Longrightarrow> parseOTPAuthURI_try newURL dec uri = Inl TypeError"
  by (simp add: parseOTPAuthURI_try_def)

lemma parseOTPAuthURI_try_rejects:
  assumes "newURL uri = Some url"
    and "protocol url \<noteq> ''otpauth:'' \<or> host url \<noteq> ''totp'' \<or>
         params_get (searchParams url) ''secret'' = None"
  shows "\<exists>e. parseOTPAuthURI_try newURL dec uri = Inl e"
  using assms
  by (auto simp add: parseOTPAuthURI_try_def Let_def split: option.splits prod.splits)

lemma parseOTPAuthURI_Some:
  assumes "parseOTPAuthURI newURL dec uri = Some p"
  shows "\<exists>url path sec.
           newURL uri = Some url \<and> protocol url = ''otpauth:'' \<and> host url = ''totp'' \<and>
           dec (drop 1 (pathname url)) = Some path \<and>
           params_get (searchParams url) ''secret'' = Some sec \<and> sec \<noteq> [] \<and>
           p = \<lparr>issuer = or_else (Some (if params_has (searchParams url) ''issuer''
                                          then or_else (params_get (searchParams url) ''issuer'')
                                                 (fst (label_parts path))
                                          else fst (label_parts path))) ''Unknown'',
                 label = snd (label_parts path),
                 secret = sec,
                 algorithm = or_else (map_option toUpperCase
                                        (params_get (searchParams url) ''algorithm'')) ''SHA1'',
                 digits = parseInt (or_else (params_get (searchParams url) ''digits'') ''6''),
                 period = parseInt (or_else (params_get (searchParams url) ''period'') ''30'')\<rparr>"
  using assms
  by (auto simp add: parseOTPAuthURI_def parseOTPAuthURI_try_def Let_def
        split: option.splits prod.splits if_splits sum.splits)


text \<open>
  Claim C3. \<open>parseOTPAuthURI\<close> returns \<open>null\<close>, the exception being caught inside, when
  \<open>new URL\<close> throws, when the protocol is not \<open>otpauth:\<close>, when the host is not \<open>totp\<close>
  and when the query has no \<open>secret\<close>. When it returns a credential and the query has no
  \<open>algorithm\<close>, \<open>digits\<close> or \<open>period\<close>, the credential has \<open>SHA1\<close>, 6 or 30 there.
\<close>

theorem parseOTPAuthURI_rejects_and_defaults:
  "(newURL uri = None \<longrightarrow>
      isl (parseOTPAuthURI_try newURL dec uri) \<and> parseOTPAuthURI newURL dec uri = None) \<and>
   (newURL uri = Some url \<longrightarrow>
      (protocol url \<noteq> ''otpauth:'' \<or> host url \<noteq> ''totp'' \<or>
       params_get (searchParams url) ''secret'' = None \<longrightarrow>
         isl (parseOTPAuthURI_try newURL dec uri) \<and> parseOTPAuthURI newURL dec uri = None) \<and>
      (parseOTPAuthURI newURL dec uri = Some p \<longrightarrow>
         (params_get (searchParams url) ''algorithm'' = None \<longrightarrow> algorithm p = ''SHA1'') \<and>
         (params_get (searchParams url) ''digits'' = None \<longrightarrow> digits p = Num 6) \<and>
         (params_get (searchParams url) ''period'' = None \<longrightarrow> period p = Num 30)))"
proof (intro conjI impI)
  assume "newURL uri = None"
  then show "isl (parseOTPAuthURI_try newURL dec uri)" "parseOTPAuthURI newURL dec uri = None"
    by (simp_all add: parseOTPAuthURI_def parseOTPAuthURI_try_no_url)
next
  assume u: "newURL uri = Some url"
    and bad: "protocol url \<noteq> ''otpauth:'' \<or> host url \<noteq> ''totp'' \<or>
              params_get (searchParams url) ''secret'' = None"
  from parseOTPAuthURI_try_rejects [of newURL uri url dec, OF u bad]
  obtain e where "parseOTPAuthURI_try newURL dec uri = Inl e" by blast
  then show "isl (parseOTPAuthURI_try newURL dec uri)" "parseOTPAuthURI newURL dec uri = None"
    by (simp_all add: parseOTPAuthURI_def)
next
  assume u: "newURL uri = Some url" and p: "parseOTPAuthURI newURL dec uri = Some p"
  from parseOTPAuthURI_Some [OF p] u
  have a: "algorithm p = or_else (map_option toUpperCase
                                    (params_get (searchParams url) ''algorithm'')) ''SHA1''"
    and d: "digits p = parseInt (or_else (params_get (searchParams url) ''digits'') ''6'')"
    and t: "period p = parseInt (or_else (params_get (searchParams url) ''period'') ''30'')"
    by auto
  {
    assume "params_get (searchParams url) ''algorithm'' = None"
    with a show "algorithm p = ''SHA1''" by (simp add: or_else_def)
  }
  {
    assume "params_get (searchParams url) ''digits'' = None"
    with d show "digits p = Num 6" by (simp add: or_else_def parseInt_6)
  }
  {
    assume "params_get (searchParams url) ''period'' = None"
    with t show "period p = Num 30" by (simp add: or_else_def parseInt_30)
  }
qed


lemmas parse_eval =
  parseOTPAuthURI_def parseOTPAuthURI_try_def label_parts_def params_get_def params_has_def
  or_else_def parseInt_def isWhiteSpace_def is_digit_def in_range_def charCode_def
  digits_value_def toUpperCase_def toUpperCase_char_def char_of_def bit_Suc_0_iff Let_def

theorem parseOTPAuthURI_rejects_and_defaults_witness:
  "parseOTPAuthURI Map.empty Map.empty ''not a uri'' = None
   \<and> parseOTPAuthURI
        [''http://totp/ACME:bob?secret=JBSWY3DPEHPK3PXP'' \<mapsto>
           \<lparr>protocol = ''http:'', host = ''totp'', pathname = ''/ACME:bob'',
            searchParams = [(''secret'', ''JBSWY3DPEHPK3PXP'')]\<rparr>]
        [''ACME:bob'' \<mapsto> ''ACME:bob'']
        ''http://totp/ACME:bob?secret=JBSWY3DPEHPK3PXP'' = None
   \<and> parseOTPAuthURI
        [''otpauth://hotp/ACME:bob?secret=JBSWY3DPEHPK3PXP'' \<mapsto>
           \<lparr>protocol = ''otpauth:'', host = ''hotp'', pathname = ''/ACME:bob'',
            searchParams = [(''secret'', ''JBSWY3DPEHPK3PXP'')]\<rparr>]
        [''ACME:bob'' \<mapsto> ''ACME:bob'']
        ''otpauth://hotp/ACME:bob?secret=JBSWY3DPEHPK3PXP'' = None
   \<and> parseOTPAuthURI
        [''otpauth://totp/ACME:bob?issuer=ACME'' \<mapsto>
           \<lparr>protocol = ''otpauth:'', host = ''totp'', pathname = ''/ACME:bob'',
            searchParams = [(''issuer'', ''ACME'')]\<rparr>]
        [''ACME:bob'' \<mapsto> ''ACME:bob'']
        ''otpauth://totp/ACME:bob?issuer=ACME'' = None
   \<and> parseOTPAuthURI
        [''otpauth://totp/ACME:bob?secret=JBSWY3DPEHPK3PXP'' \<mapsto>
           \<lparr>protocol = ''otpauth:'', host = ''totp'', pathname = ''/ACME:bob'',
            searchParams = [(''secret'', ''JBSWY3DPEHPK3PXP'')]\<rparr>]
        [''ACME:bob'' \<mapsto> ''ACME:bob'']
        ''otpauth://totp/ACME:bob?secret=JBSWY3DPEHPK3PXP''
      = Some \<lparr>issuer = ''ACME'', label = ''bob'', secret = ''JBSWY3DPEHPK3PXP'',
               algorithm = ''SHA1'', digits = Num 6, period = Num 30\<rparr>"
proof -
  let ?dec = "[''ACME:bob'' \<mapsto> ''ACME:bob'']"
  let ?u1 = "\<lparr>protocol = ''http:'', host = ''totp'', pathname = ''/ACME:bob'',
            searchParams = [(''secret'', ''JBSWY3DPEHPK3PXP'')]\<rparr>"
  let ?u2 = "\<lparr>protocol = ''otpauth:'', host = ''hotp'', pathname = ''/ACME:bob'',
            searchParams = [(''secret'', ''JBSWY3DPEHPK3PXP'')]\<rparr>"
  let ?u3 = "\<lparr>protocol = ''otpauth:'', host = ''totp'', pathname = ''/ACME:bob'',
            searchParams = [(''issuer'', ''ACME'')]\<rparr>"
  let ?u4 = "\<lparr>protocol = ''otpauth:'', host = ''totp'', pathname = ''/ACME:bob'',
            searchParams = [(''secret'', ''JBSWY3DPEHPK3PXP'')]\<rparr>"
  let ?p4 = "\<lparr>issuer = ''ACME'', label = ''bob'', secret = ''JBSWY3DPEHPK3PXP'',
               algorithm = ''SHA1'', digits = Num 6, period = Num 30\<rparr>"
  have a0: "parseOTPAuthURI Map.empty Map.empty ''not a uri'' = None"
    using parseOTPAuthURI_rejects_and_defaults [of Map.empty "''not a uri''" Map.empty]
    by simp
  have a1: "parseOTPAuthURI [''http://totp/ACME:bob?secret=JBSWY3DPEHPK3PXP'' \<mapsto> ?u1] ?dec
              ''http://totp/ACME:bob?secret=JBSWY3DPEHPK3PXP'' = None"
    using parseOTPAuthURI_rejects_and_defaults
            [of "[''http://totp/ACME:bob?secret=JBSWY3DPEHPK3PXP'' \<mapsto> ?u1]"
                "''http://totp/ACME:bob?secret=JBSWY3DPEHPK3PXP''" ?dec ?u1]
    by simp
  have a2: "parseOTPAuthURI [''otpauth://hotp/ACME:bob?secret=JBSWY3DPEHPK3PXP'' \<mapsto> ?u2] ?dec
              ''otpauth://hotp/ACME:bob?secret=JBSWY3DPEHPK3PXP'' = None"
    using parseOTPAuthURI_rejects_and_defaults
            [of "[''otpauth://hotp/ACME:bob?secret=JBSWY3DPEHPK3PXP'' \<mapsto> ?u2]"
                "''otpauth://hotp/ACME:bob?secret=JBSWY3DPEHPK3PXP''" ?dec ?u2]
    by simp
  have a3: "parseOTPAuthURI [''otpauth://totp/ACME:bob?issuer=ACME'' \<mapsto> ?u3] ?dec
              ''otpauth://totp/ACME:bob?issuer=ACME'' = None"
    using parseOTPAuthURI_rejects_and_defaults
            [of "[''otpauth://totp/ACME:bob?issuer=ACME'' \<mapsto> ?u3]"
                "''otpauth://totp/ACME:bob?issuer=ACME''" ?dec ?u3]
    by (simp add: params_get_def)
  have e4: "parseOTPAuthURI [''otpauth://totp/ACME:bob?secret=JBSWY3DPEHPK3PXP'' \<mapsto> ?u4] ?dec
              ''otpauth://totp/ACME:bob?secret=JBSWY3DPEHPK3PXP'' = Some ?p4"
    by (simp add: parse_eval)
  have "algorithm ?p4 = ''SHA1'' \<and> digits ?p4 = Num 6 \<and> period ?p4 = Num 30"
    using parseOTPAuthURI_rejects_and_defaults
            [of "[''otpauth://totp/ACME:bob?secret=JBSWY3DPEHPK3PXP'' \<mapsto> ?u4]"
                "''otpauth://totp/ACME:bob?secret=JBSWY3DPEHPK3PXP''" ?dec ?u4 ?p4] e4
    by (simp add: params_get_def)
  with a0 a1 a2 a3 e4 show ?thesis by simp
qed

text \<open>
  Claim C1. The parser checks none of \<open>algorithm\<close>, \<open>digits\<close> and \<open>period\<close>: on the URI
  below it returns a credential with the algorithm \<open>MD5\<close>, 11 digits and the period 0, none
  of which the specification allows.
\<close>

theorem parseOTPAuthURI_unchecked:
  "parseOTPAuthURI
     [''otpauth://totp/ACME:bob?secret=JBSWY3DPEHPK3PXP&algorithm=md5&digits=11&period=0'' \<mapsto>
        \<lparr>protocol = ''otpauth:'', host = ''totp'', pathname = ''/ACME:bob'',
         searchParams = [(''secret'', ''JBSWY3DPEHPK3PXP''), (''algorithm'', ''md5''),
                         (''digits'', ''11''), (''period'', ''0'')]\<rparr>]
     [''ACME:bob'' \<mapsto> ''ACME:bob'']
     ''otpauth://totp/ACME:bob?secret=JBSWY3DPEHPK3PXP&algorithm=md5&digits=11&period=0''
   = Some \<lparr>issuer = ''ACME'', label = ''bob'', secret = ''JBSWY3DPEHPK3PXP'',
            algorithm = ''MD5'', digits = Num 11, period = Num 0\<rparr>
   \<and> \<not> valid_algorithm ''MD5'' \<and> \<not> integer_in 1 10 (Num 11) \<and> \<not> integer_in 1 300 (Num 0)"
  by (simp add: parse_eval valid_algorithm_def integer_in_def)

text \<open>
  Claim C8, as stated, fails: with an \<open>issuer\<close> parameter that is present and empty the
  issuer of the path, \<open>ACME\<close>, is kept.
\<close>

theorem issuer_param_empty_counterexample:
  "params_has [(''secret'', ''JBSWY3DPEHPK3PXP''), (''issuer'', '''')] ''issuer''
   \<and> parseOTPAuthURI
        [''otpauth://totp/ACME:bob?secret=JBSWY3DPEHPK3PXP&issuer='' \<mapsto>
           \<lparr>protocol = ''otpauth:'', host = ''totp'', pathname = ''/ACME:bob'',
            searchParams = [(''secret'', ''JBSWY3DPEHPK3PXP''), (''issuer'', '''')]\<rparr>]
        [''ACME:bob'' \<mapsto> ''ACME:bob'']
        ''otpauth://totp/ACME:bob?secret=JBSWY3DPEHPK3PXP&issuer=''
      = Some \<lparr>issuer = ''ACME'', label = ''bob'', secret = ''JBSWY3DPEHPK3PXP'',
               algorithm = ''SHA1'', digits = Num 6, period = Num 30\<rparr>"
  by (simp add: parse_eval)

text \<open>
  Claim C8, amended. An \<open>issuer\<close> parameter that is present and not empty is the issuer of
  the credential. Otherwise the issuer is the one read from the label path, and
  \<open>Unknown\<close> when that one is empty.
\<close>

theorem issuer_override:
  assumes "newURL uri = Some url"
    and "dec (drop 1 (pathname url)) = Some path"
    and "parseOTPAuthURI newURL dec uri = Some p"
  shows "(case params_get (searchParams url) ''issuer'' of
            Some (c # cs) \<Rightarrow> issuer p = c # cs
          | _ \<Rightarrow> issuer p = (if fst (label_parts path) = [] then ''Unknown''
                              else fst (label_parts path)))"
proof -
  from parseOTPAuthURI_Some [OF assms(3)] assms(1,2)
  have "issuer p = or_else (Some (if params_has (searchParams url) ''issuer''
                                  then or_else (params_get (searchParams url) ''issuer'')
                                         (fst (label_parts path))
                                  else fst (label_parts path))) ''Unknown''"
    by auto
  then show ?thesis
    by (auto simp add: or_else_def params_has_def params_get_def split: option.splits list.splits)
qed

theorem issuer_override_witness:
  "issuer \<lparr>issuer = ''Corp'', label = ''bob'', secret = ''JBSWY3DPEHPK3PXP'',
           algorithm = ''SHA1'', digits = Num 6, period = Num 30\<rparr> = ''Corp''
   \<and> parseOTPAuthURI
        [''otpauth://totp/ACME:bob?secret=JBSWY3DPEHPK3PXP&issuer=Corp'' \<mapsto>
           \<lparr>protocol = ''otpauth:'', host = ''totp'', pathname = ''/ACME:bob'',
            searchParams = [(''secret'', ''JBSWY3DPEHPK3PXP''), (''issuer'', ''Corp'')]\<rparr>]
        [''ACME:bob'' \<mapsto> ''ACME:bob'']
        ''otpauth://totp/ACME:bob?secret=JBSWY3DPEHPK3PXP&issuer=Corp''
      = Some \<lparr>issuer = ''Corp'', label = ''bob'', secret = ''JBSWY3DPEHPK3PXP'',
               algorithm = ''SHA1'', digits = Num 6, period = Num 30\<rparr>
   \<and> issuer \<lparr>issuer = ''Unknown'', label = ''bob'', secret = ''JBSWY3DPEHPK3PXP'',
           algorithm = ''SHA1'', digits = Num 6, period = Num 30\<rparr> = ''Unknown''
   \<and> parseOTPAuthURI
        [''otpauth://totp/bob?secret=JBSWY3DPEHPK3PXP'' \<mapsto>
           \<lparr>protocol = ''otpauth:'', host = ''totp'', pathname = ''/bob'',
            searchParams = [(''secret'', ''JBSWY3DPEHPK3PXP'')]\<rparr>]
        [''bob'' \<mapsto> ''bob'']
        ''otpauth://totp/bob?secret=JBSWY3DPEHPK3PXP''
      = Some \<lparr>issuer = ''Unknown'', label = ''bob'', secret = ''JBSWY3DPEHPK3PXP'',
               algorithm = ''SHA1'', digits = Num 6, period = Num 30\<rparr>"
proof -
  let ?uri1 = "''otpauth://totp/ACME:bob?secret=JBSWY3DPEHPK3PXP&issuer=Corp''"
  let ?u1 = "\<lparr>protocol = ''otpauth:'', host = ''totp'', pathname = ''/ACME:bob'',
            searchParams = [(''secret'', ''JBSWY3DPEHPK3PXP''), (''issuer'', ''Corp'')]\<rparr>"
  let ?p1 = "\<lparr>issuer = ''Corp'', label = ''bob'', secret = ''JBSWY3DPEHPK3PXP'',
               algorithm = ''SHA1'', digits = Num 6, period = Num 30\<rparr>"
  let ?uri2 = "''otpauth://totp/bob?secret=JBSWY3DPEHPK3PXP''"
  let ?u2 = "\<lparr>protocol = ''otpauth:'', host = ''totp'', pathname = ''/bob'',
            searchParams = [(''secret'', ''JBSWY3DPEHPK3PXP'')]\<rparr>"
  let ?p2 = "\<lparr>issuer = ''Unknown'', label = ''bob'', secret = ''JBSWY3DPEHPK3PXP'',
               algorithm = ''SHA1'', digits = Num 6, period = Num 30\<rparr>"
  have a1: "[?uri1 \<mapsto> ?u1] ?uri1 = Some ?u1" by simp
  have b1: "[''ACME:bob'' \<mapsto> ''ACME:bob''] (drop 1 (pathname ?u1)) = Some ''ACME:bob''" by simp
  have c1: "parseOTPAuthURI [?uri1 \<mapsto> ?u1] [''ACME:bob'' \<mapsto> ''ACME:bob''] ?uri1 = Some ?p1"
    by (simp add: parse_eval)
  have a2: "[?uri2 \<mapsto> ?u2] ?uri2 = Some ?u2" by simp
  have b2: "[''bob'' \<mapsto> ''bob''] (drop 1 (pathname ?u2)) = Some ''bob''" by simp
  have c2: "parseOTPAuthURI [?uri2 \<mapsto> ?u2] [''bob'' \<mapsto> ''bob''] ?uri2 = Some ?p2"
    by (simp add: parse_eval)
  from issuer_override [of "[?uri1 \<mapsto> ?u1]" ?uri1 ?u1 "[''ACME:bob'' \<mapsto> ''ACME:bob'']"
         "''ACME:bob''" ?p1, OF a1 b1 c1]
  have "issuer ?p1 = ''Corp''" by (simp add: params_get_def)
  moreover
  from issuer_override [of "[?uri2 \<mapsto> ?u2]" ?uri2 ?u2 "[''bob'' \<mapsto> ''bob'']"
         "''bob''" ?p2, OF a2 b2 c2]
  have "issuer ?p2 = ''Unknown''" by (simp add: params_get_def label_parts_def)
  ultimately show ?thesis using c1 c2 by simp
qed

subsection \<open>The form of stored secrets\<close>












end
